theory Spec2Isabelle
  imports Complex_Main
begin

section \<open>Python floats\<close>

text \<open>
  A Python \<^verbatim>\<open>float\<close> is an IEEE 754 binary64 value: a finite number, an infinity or
  NaN. A finite float is kept as the real number it denotes (the two zeros are not
  told apart). Every arithmetic operation computes the exact result and rounds it to the
  nearest binary64 value, ties to the even significand; a result whose magnitude reaches
  \<open>2 ^ 1024\<close> after rounding is an infinity.
\<close>

datatype pyfloat = Fl real | PInf | NInf | NaN

definition round_half_even :: "real \<Rightarrow> int" where
  "round_half_even q =
     (let f = \<lfloor>q\<rfloor>
      in if q - of_int f < 1 / 2 then f
         else if 1 / 2 < q - of_int f then f + 1
         else if even f then f else f + 1)"

text \<open>
  The exponent of the unit in the last place of \<open>x\<close>: 52 binary digits below the
  leading one, and never below that of the subnormal numbers.
\<close>

definition ulp_exponent :: "real \<Rightarrow> int" where
  "ulp_exponent x = max (\<lfloor>log 2 \<bar>x\<bar>\<rfloor> - 52) (- 1074)"

definition round_double :: "real \<Rightarrow> pyfloat" where
  "round_double x =
     (if x = 0 then Fl 0
      else
        (let u = 2 powr of_int (ulp_exponent x);
             y = of_int (round_half_even (x / u)) * u
         in if 2 ^ 1024 \<le> \<bar>y\<bar> then (if 0 < x then PInf else NInf) else Fl y))"

fun fadd :: "pyfloat \<Rightarrow> pyfloat \<Rightarrow> pyfloat" where
  "fadd (Fl a) (Fl b) = round_double (a + b)"
| "fadd NaN y = NaN"
| "fadd x NaN = NaN"
| "fadd PInf NInf = NaN"
| "fadd NInf PInf = NaN"
| "fadd PInf y = PInf"
| "fadd x PInf = PInf"
| "fadd NInf y = NInf"
| "fadd x NInf = NInf"

fun fneg :: "pyfloat \<Rightarrow> pyfloat" where
  "fneg (Fl a) = Fl (- a)"
| "fneg PInf = NInf"
| "fneg NInf = PInf"
| "fneg NaN = NaN"

definition fsub :: "pyfloat \<Rightarrow> pyfloat \<Rightarrow> pyfloat" where
  "fsub x y = fadd x (fneg y)"

fun fmul :: "pyfloat \<Rightarrow> pyfloat \<Rightarrow> pyfloat" where
  "fmul (Fl a) (Fl b) = round_double (a * b)"
| "fmul NaN y = NaN"
| "fmul x NaN = NaN"
| "fmul (Fl a) PInf = (if a = 0 then NaN else if 0 < a then PInf else NInf)"
| "fmul (Fl a) NInf = (if a = 0 then NaN else if 0 < a then NInf else PInf)"
| "fmul PInf (Fl b) = (if b = 0 then NaN else if 0 < b then PInf else NInf)"
| "fmul NInf (Fl b) = (if b = 0 then NaN else if 0 < b then NInf else PInf)"
| "fmul PInf PInf = PInf"
| "fmul PInf NInf = NInf"
| "fmul NInf PInf = NInf"
| "fmul NInf NInf = PInf"

section \<open>Values handled by compute\_sales.py\<close>

text \<open>
  The two input files are parsed by \<^verbatim>\<open>json.load\<close>, so every value the functions
  receive is a JSON value: \<^verbatim>\<open>None\<close>, a \<^verbatim>\<open>bool\<close>, an \<^verbatim>\<open>int\<close>
  (unbounded), a \<^verbatim>\<open>float\<close> (the parser also accepts \<^verbatim>\<open>NaN\<close>,
  \<^verbatim>\<open>Infinity\<close> and \<^verbatim>\<open>-Infinity\<close>), a \<^verbatim>\<open>str\<close>, a \<^verbatim>\<open>list\<close> or a
  \<^verbatim>\<open>dict\<close> with string keys. A dict is kept as the list of its items in insertion
  order (its keys are distinct), looked up with \<open>map_of\<close>.
\<close>

datatype json =
    JNull
  | JBool bool
  | JInt int
  | JFloat pyfloat
  | JStr string
  | JList "json list"
  | JObj "(string \<times> json) list"

text \<open>The exceptions that the program can meet.\<close>

datatype py_exn =
    AttributeError
  | TypeError
  | KeyError
  | OverflowError
  | FileNotFoundError
  | JSONDecodeError
  | PermissionError
  | IsADirectoryError
  | UnicodeDecodeError
  | OSError

text \<open>
  Every line the program prints or writes. A line carries the values that the f-string
  formats, so two equal lines print the same text.
\<close>

datatype line =
    ErrorLoading string string
  | InvalidProductEntry json
  | NotFoundInCatalogue json
  | InvalidQuantity json
  | Usage
  | InvalidFileFormat
  | TotalSalesCost pyfloat
  | ExecutionTime pyfloat

text \<open>
  \<^verbatim>\<open>x.get(key)\<close>: only a dict has the method; on any other JSON value the attribute
  lookup raises AttributeError. A missing key gives \<^verbatim>\<open>None\<close>.
\<close>

definition dict_get :: "(string \<times> json) list \<Rightarrow> string \<Rightarrow> json" where
  "dict_get kvs k = (case map_of kvs k of None \<Rightarrow> JNull | Some x \<Rightarrow> x)"

definition py_get :: "json \<Rightarrow> string \<Rightarrow> py_exn + json" where
  "py_get v k =
     (case v of
        JObj kvs \<Rightarrow> Inr (dict_get kvs k)
      | _ \<Rightarrow> Inl AttributeError)"

text \<open>\<^verbatim>\<open>isinstance(x, str)\<close> and the string it holds.\<close>

fun is_str :: "json \<Rightarrow> bool" where
  "is_str (JStr s) = True"
| "is_str _ = False"

fun str_val :: "json \<Rightarrow> string" where
  "str_val (JStr s) = s"
| "str_val _ = []"

text \<open>
  \<^verbatim>\<open>isinstance(x, (int, float))\<close>: \<^verbatim>\<open>bool\<close> is a subclass of \<^verbatim>\<open>int\<close>
  in Python, so booleans pass.
\<close>

fun is_number :: "json \<Rightarrow> bool" where
  "is_number (JBool b) = True"
| "is_number (JInt i) = True"
| "is_number (JFloat r) = True"
| "is_number _ = False"

text \<open>
  A number in arithmetic is an \<^verbatim>\<open>int\<close> (a boolean counts as 1 or 0) or a
  \<^verbatim>\<open>float\<close>. The last equation is never reached behind an \<^verbatim>\<open>isinstance\<close> test.
\<close>

datatype pynum = PInt int | PFloat pyfloat

fun as_num :: "json \<Rightarrow> pynum" where
  "as_num (JBool b) = PInt (if b then 1 else 0)"
| "as_num (JInt i) = PInt i"
| "as_num (JFloat x) = PFloat x"
| "as_num _ = PInt 0"

text \<open>
  Converting an \<^verbatim>\<open>int\<close> to a \<^verbatim>\<open>float\<close> rounds it, and raises OverflowError
  when it is beyond the range of the finite floats.
\<close>

definition to_float :: "int \<Rightarrow> py_exn + pyfloat" where
  "to_float i =
     (case round_double (of_int i) of
        Fl y \<Rightarrow> Inr (Fl y)
      | _ \<Rightarrow> Inl OverflowError)"

text \<open>
  \<^verbatim>\<open>x * y\<close>: exact on two ints; otherwise the int operand, if any, is converted and the
  floats are multiplied.
\<close>

fun py_mul :: "pynum \<Rightarrow> pynum \<Rightarrow> py_exn + pynum" where
  "py_mul (PInt a) (PInt b) = Inr (PInt (a * b))"
| "py_mul (PInt a) (PFloat y) =
     (case to_float a of Inl e \<Rightarrow> Inl e | Inr x \<Rightarrow> Inr (PFloat (fmul x y)))"
| "py_mul (PFloat x) (PInt b) =
     (case to_float b of Inl e \<Rightarrow> Inl e | Inr y \<Rightarrow> Inr (PFloat (fmul x y)))"
| "py_mul (PFloat x) (PFloat y) = Inr (PFloat (fmul x y))"

text \<open>\<^verbatim>\<open>total += x\<close> for a float \<^verbatim>\<open>total\<close>: an int \<^verbatim>\<open>x\<close> is converted first.\<close>

fun float_iadd :: "pyfloat \<Rightarrow> pynum \<Rightarrow> py_exn + pyfloat" where
  "float_iadd t (PInt i) = (case to_float i of Inl e \<Rightarrow> Inl e | Inr x \<Rightarrow> Inr (fadd t x))"
| "float_iadd t (PFloat x) = Inr (fadd t x)"

text \<open>\<^verbatim>\<open>x < 0\<close>: false for NaN.\<close>

fun py_lt0 :: "pynum \<Rightarrow> bool" where
  "py_lt0 (PInt i) = (i < 0)"
| "py_lt0 (PFloat (Fl r)) = (r < 0)"
| "py_lt0 (PFloat NInf) = True"
| "py_lt0 (PFloat PInf) = False"
| "py_lt0 (PFloat NaN) = False"

text \<open>\<^verbatim>\<open>isinstance(x, list)\<close>.\<close>

fun is_list :: "json \<Rightarrow> bool" where
  "is_list (JList xs) = True"
| "is_list _ = False"

fun list_val :: "json \<Rightarrow> json list" where
  "list_val (JList xs) = xs"
| "list_val _ = []"

text \<open>
  The catalogue dictionary: its keys are the strings that passed the \<^verbatim>\<open>isinstance\<close>
  test, its values the prices as stored.
\<close>

type_synonym catalogue_dict = "string \<rightharpoonup> json"

text \<open>
  \<^verbatim>\<open>product not in price_catalogue_dict\<close> hashes \<^verbatim>\<open>product\<close> first: a list or a
  dict is unhashable and raises TypeError. Every key is a \<^verbatim>\<open>str\<close>, and no other
  JSON value is equal to a \<^verbatim>\<open>str\<close>.
\<close>

definition py_in :: "json \<Rightarrow> catalogue_dict \<Rightarrow> py_exn + bool" where
  "py_in k d =
     (case k of
        JList xs \<Rightarrow> Inl TypeError
      | JObj kvs \<Rightarrow> Inl TypeError
      | JStr s \<Rightarrow> Inr (d s \<noteq> None)
      | _ \<Rightarrow> Inr False)"

section \<open>convert\_catalogue\_to\_dict\<close>

text \<open>
  One iteration of the loop over the catalogue, on the state (dictionary, lines printed
  so far). The two \<^verbatim>\<open>item.get\<close> calls come before the type tests.
\<close>

definition catalogue_step ::
  "json \<Rightarrow> catalogue_dict \<times> line list \<Rightarrow> py_exn + (catalogue_dict \<times> line list)" where
  "catalogue_step item s =
     (case py_get item ''title'' of
        Inl e \<Rightarrow> Inl e
      | Inr product \<Rightarrow>
          (case py_get item ''price'' of
             Inl e \<Rightarrow> Inl e
           | Inr price \<Rightarrow>
               if is_str product \<and> is_number price
               then Inr ((fst s)(str_val product \<mapsto> price), snd s)
               else Inr (fst s, snd s @ [InvalidProductEntry item])))"

fun convert_loop ::
  "json list \<Rightarrow> catalogue_dict \<times> line list \<Rightarrow> py_exn + (catalogue_dict \<times> line list)" where
  "convert_loop [] s = Inr s"
| "convert_loop (item # items) s =
     (case catalogue_step item s of
        Inl e \<Rightarrow> Inl e
      | Inr s' \<Rightarrow> convert_loop items s')"

text \<open>The result is the dictionary together with the warnings printed while building it.\<close>

definition convert_catalogue_to_dict ::
  "json list \<Rightarrow> py_exn + (catalogue_dict \<times> line list)" where
  "convert_catalogue_to_dict price_catalogue = convert_loop price_catalogue (Map.empty, [])"

section \<open>compute\_total\_sales\<close>

text \<open>
  \<^verbatim>\<open>total_cost += price * quantity\<close> (line 110): the product in Python's mixed
  arithmetic, then the float addition. Either can raise OverflowError on an int beyond
  the float range.
\<close>

definition accumulate :: "pyfloat \<Rightarrow> json \<Rightarrow> json \<Rightarrow> py_exn + pyfloat" where
  "accumulate total_cost price quantity =
     (case py_mul (as_num price) (as_num quantity) of
        Inl e \<Rightarrow> Inl e
      | Inr x \<Rightarrow> float_iadd total_cost x)"

text \<open>
  The end of the loop body (the two checks and the accumulation), on the state (total
  cost, lines printed so far). Indexing the dictionary with a missing key would raise
  KeyError.
\<close>

definition add_sale ::
  "catalogue_dict \<Rightarrow> json \<Rightarrow> json \<Rightarrow> pyfloat \<times> line list \<Rightarrow> py_exn + (pyfloat \<times> line list)" where
  "add_sale d product quantity s =
     (case py_in product d of
        Inl e \<Rightarrow> Inl e
      | Inr found \<Rightarrow>
          if \<not> found
          then Inr (fst s, snd s @ [NotFoundInCatalogue product])
          else if \<not> is_number quantity \<or> py_lt0 (as_num quantity)
          then Inr (fst s, snd s @ [InvalidQuantity product])
          else (case d (str_val product) of
                  None \<Rightarrow> Inl KeyError
                | Some price \<Rightarrow>
                    (case accumulate (fst s) price quantity of
                       Inl e \<Rightarrow> Inl e
                     | Inr total_cost \<Rightarrow> Inr (total_cost, snd s))))"

text \<open>
  One iteration of the loop over the sales. The catalogue dictionary is rebuilt in every
  iteration, which prints its warnings again.
\<close>

definition sale_step ::
  "json list \<Rightarrow> json \<Rightarrow> pyfloat \<times> line list \<Rightarrow> py_exn + (pyfloat \<times> line list)" where
  "sale_step price_catalogue sale s =
     (case py_get sale ''Product'' of
        Inl e \<Rightarrow> Inl e
      | Inr product \<Rightarrow>
          (case py_get sale ''Quantity'' of
             Inl e \<Rightarrow> Inl e
           | Inr quantity \<Rightarrow>
               (case convert_catalogue_to_dict price_catalogue of
                  Inl e \<Rightarrow> Inl e
                | Inr (d, printed) \<Rightarrow> add_sale d product quantity (fst s, snd s @ printed))))"

fun sales_loop ::
  "json list \<Rightarrow> json list \<Rightarrow> pyfloat \<times> line list \<Rightarrow> py_exn + (pyfloat \<times> line list)" where
  "sales_loop price_catalogue [] s = Inr s"
| "sales_loop price_catalogue (sale # sales) s =
     (case sale_step price_catalogue sale s of
        Inl e \<Rightarrow> Inl e
      | Inr s' \<Rightarrow> sales_loop price_catalogue sales s')"

text \<open>The total starts as the float \<^verbatim>\<open>0.0\<close>.\<close>

definition compute_total_sales ::
  "json list \<Rightarrow> json list \<Rightarrow> py_exn + (pyfloat \<times> line list)" where
  "compute_total_sales price_catalogue sales_record =
     sales_loop price_catalogue sales_record (Fl 0, [])"

text \<open>
  Only the lines of a run that returns are tracked: when a function raises, the model
  gives the exception and not what was printed before it.
\<close>

section \<open>load\_json\_file\<close>

text \<open>
  What the body of the \<^verbatim>\<open>try\<close> does is decided by the file system and the JSON
  parser: it returns the parsed value, or raises an exception with a message (a missing
  file raises FileNotFoundError, a file without read permission PermissionError, a
  directory IsADirectoryError, bytes that are not UTF-8 UnicodeDecodeError, text that is
  not JSON JSONDecodeError).
\<close>

datatype load_result = Parsed json | Raises py_exn string

text \<open>The \<^verbatim>\<open>except\<close> clause names two classes; any other exception propagates.\<close>

definition load_json_file :: "string \<Rightarrow> load_result \<Rightarrow> py_exn + (json \<times> line list)" where
  "load_json_file filename body =
     (case body of
        Parsed v \<Rightarrow> Inr (v, [])
      | Raises e msg \<Rightarrow>
          if e = FileNotFoundError \<or> e = JSONDecodeError
          then Inr (JObj [], [ErrorLoading filename msg])
          else Inl e)"

section \<open>save\_results and main\<close>

text \<open>
  The environment of a run: what reading each path gives, the two readings of the clock
  (floats), and the exception, if any, that opening the report file for writing raises.
\<close>

record world =
  files :: "string \<Rightarrow> load_result"
  time_start :: pyfloat
  time_end :: pyfloat
  write_error :: "py_exn option"

text \<open>
  A run ends with an exit status, the lines on the console and the file written (name
  and lines) if any, or with an uncaught exception.
\<close>

datatype run =
    Finished nat "line list" "(string \<times> line list) option"
  | Crashed py_exn

definition save_results ::
  "world \<Rightarrow> string \<Rightarrow> pyfloat \<Rightarrow> pyfloat \<Rightarrow> py_exn + (string \<times> line list)" where
  "save_results w filename total_cost elapsed_time =
     (case write_error w of
        Some e \<Rightarrow> Inl e
      | None \<Rightarrow> Inr (filename, [TotalSalesCost total_cost, ExecutionTime elapsed_time]))"

definition main :: "string list \<Rightarrow> world \<Rightarrow> run" where
  "main argv w =
     (if length argv \<noteq> 3 then Finished 1 [Usage] None
      else
        (case load_json_file (argv ! 1) (files w (argv ! 1)) of
           Inl e \<Rightarrow> Crashed e
         | Inr (price_catalogue, out1) \<Rightarrow>
        (case load_json_file (argv ! 2) (files w (argv ! 2)) of
           Inl e \<Rightarrow> Crashed e
         | Inr (sales_record, out2) \<Rightarrow>
             if \<not> is_list price_catalogue \<or> \<not> is_list sales_record
             then Finished 1 (out1 @ out2 @ [InvalidFileFormat]) None
             else
               (case compute_total_sales (list_val price_catalogue) (list_val sales_record) of
                  Inl e \<Rightarrow> Crashed e
                | Inr (total_cost, out3) \<Rightarrow>
                    (let elapsed_time = fsub (time_end w) (time_start w);
                         shown = out1 @ out2 @ out3 @
                           [TotalSalesCost total_cost, ExecutionTime elapsed_time]
                     in case save_results w ''SalesResults.txt'' total_cost elapsed_time of
                          Inl e \<Rightarrow> Crashed e
                        | Inr file \<Rightarrow> Finished 0 shown (Some file))))))"

section \<open>Building the index once\<close>

text \<open>
  The variant that the specification proposes: the catalogue index is built once, before
  the loop over the sales, and each iteration only reads the two fields and runs the
  checks.
\<close>

definition sale_step_once ::
  "catalogue_dict \<Rightarrow> json \<Rightarrow> pyfloat \<times> line list \<Rightarrow> py_exn + (pyfloat \<times> line list)" where
  "sale_step_once d sale s =
     (case py_get sale ''Product'' of
        Inl e \<Rightarrow> Inl e
      | Inr product \<Rightarrow>
          (case py_get sale ''Quantity'' of
             Inl e \<Rightarrow> Inl e
           | Inr quantity \<Rightarrow> add_sale d product quantity s))"

fun sales_loop_once ::
  "catalogue_dict \<Rightarrow> json list \<Rightarrow> pyfloat \<times> line list \<Rightarrow> py_exn + (pyfloat \<times> line list)" where
  "sales_loop_once d [] s = Inr s"
| "sales_loop_once d (sale # sales) s =
     (case sale_step_once d sale s of
        Inl e \<Rightarrow> Inl e
      | Inr s' \<Rightarrow> sales_loop_once d sales s')"

definition compute_total_sales_once ::
  "json list \<Rightarrow> json list \<Rightarrow> py_exn + (pyfloat \<times> line list)" where
  "compute_total_sales_once price_catalogue sales_record =
     (case convert_catalogue_to_dict price_catalogue of
        Inl e \<Rightarrow> Inl e
      | Inr (d, printed) \<Rightarrow> sales_loop_once d sales_record (Fl 0, printed))"

section \<open>Vocabulary of the specification\<close>

text \<open>A record is a JSON object; a field that is absent reads as \<^verbatim>\<open>None\<close>.\<close>

fun is_obj :: "json \<Rightarrow> bool" where
  "is_obj (JObj kvs) = True"
| "is_obj _ = False"

fun field :: "json \<Rightarrow> string \<Rightarrow> json" where
  "field (JObj kvs) k = dict_get kvs k"
| "field _ k = JNull"

text \<open>A list or a dict cannot be hashed.\<close>

fun hashable :: "json \<Rightarrow> bool" where
  "hashable (JList xs) = False"
| "hashable (JObj kvs) = False"
| "hashable _ = True"

text \<open>A valid catalogue entry: a string title and a numeric price.\<close>

definition valid_entry :: "json \<Rightarrow> bool" where
  "valid_entry item = (is_str (field item ''title'') \<and> is_number (field item ''price''))"

text \<open>The Product of a sale is a key of the catalogue index.\<close>

definition in_index :: "catalogue_dict \<Rightarrow> json \<Rightarrow> bool" where
  "in_index idx sale =
     (is_str (field sale ''Product'') \<and> idx (str_val (field sale ''Product'')) \<noteq> None)"



text \<open>
  The sale records that the code accepts: the Product is a key of the index, and the
  Quantity is numeric and not below zero.
\<close>

definition accepted :: "catalogue_dict \<Rightarrow> json \<Rightarrow> bool" where
  "accepted idx sale =
     (in_index idx sale \<and> is_number (field sale ''Quantity'') \<and>
      \<not> py_lt0 (as_num (field sale ''Quantity'')))"

text \<open>
  The floating-point sum of catalogue price times Quantity over a list of sale records,
  accumulated in the order of the list from a starting value.
\<close>

definition sale_price :: "catalogue_dict \<Rightarrow> json \<Rightarrow> json" where
  "sale_price idx sale =
     (case idx (str_val (field sale ''Product'')) of None \<Rightarrow> JNull | Some price \<Rightarrow> price)"

fun float_sum :: "catalogue_dict \<Rightarrow> json list \<Rightarrow> pyfloat \<Rightarrow> py_exn + pyfloat" where
  "float_sum idx [] t = Inr t"
| "float_sum idx (sale # sales) t =
     (case accumulate t (sale_price idx sale) (field sale ''Quantity'') of
        Inl e \<Rightarrow> Inl e
      | Inr t' \<Rightarrow> float_sum idx sales t')"

text \<open>Finite numbers, and floats that are neither negative nor NaN.\<close>

fun finite_num :: "pynum \<Rightarrow> bool" where
  "finite_num (PInt i) = True"
| "finite_num (PFloat (Fl r)) = True"
| "finite_num (PFloat x) = False"

fun non_negative_float :: "pyfloat \<Rightarrow> bool" where
  "non_negative_float (Fl r) = (0 \<le> r)"
| "non_negative_float PInf = True"
| "non_negative_float x = False"

text \<open>The warnings about sale records, as opposed to those about catalogue entries.\<close>

fun is_sale_warning :: "line \<Rightarrow> bool" where
  "is_sale_warning (NotFoundInCatalogue p) = True"
| "is_sale_warning (InvalidQuantity p) = True"
| "is_sale_warning _ = False"

text \<open>The warning, if any, that one sale record gets from the two checks.\<close>

definition sale_warning :: "catalogue_dict \<Rightarrow> json \<Rightarrow> line list" where
  "sale_warning idx sale =
     (if \<not> in_index idx sale
      then [NotFoundInCatalogue (field sale ''Product'')]
      else if \<not> is_number (field sale ''Quantity'') \<or> py_lt0 (as_num (field sale ''Quantity''))
      then [InvalidQuantity (field sale ''Product'')]
      else [])"

text \<open>The example of the specification.\<close>

definition example_catalogue :: "json list" where
  "example_catalogue =
     [JObj [(''title'', JStr ''A''), (''price'', JInt 10)],
      JObj [(''title'', JStr ''B''), (''price'', JInt 5)]]"

definition example_sales :: "json list" where
  "example_sales =
     [JObj [(''Product'', JStr ''A''), (''Quantity'', JInt 2)],
      JObj [(''Product'', JStr ''C''), (''Quantity'', JInt 1)],
      JObj [(''Product'', JStr ''B''), (''Quantity'', JInt (- 1))]]"


text \<open>A catalogue with a repeated title.\<close>

definition duplicate_catalogue :: "json list" where
  "duplicate_catalogue =
     [JObj [(''title'', JStr ''A''), (''price'', JInt 10)],
      JObj [(''title'', JStr ''B''), (''price'', JInt 5)],
      JObj [(''title'', JStr ''A''), (''price'', JInt 7)]]"

text \<open>Two environments: one where the catalogue file is missing, one with an empty sales file.\<close>

definition missing_catalogue_world :: world where
  "missing_catalogue_world =
     \<lparr>files = (\<lambda>f. if f = ''priceCatalogue.json''
                    then Raises FileNotFoundError ''No such file or directory''
                    else Parsed (JList example_sales)),
      time_start = Fl 100, time_end = Fl 101, write_error = None\<rparr>"

definition empty_sales_world :: world where
  "empty_sales_world =
     \<lparr>files = (\<lambda>f. if f = ''priceCatalogue.json''
                    then Parsed (JList example_catalogue)
                    else Parsed (JList [])),
      time_start = Fl 100, time_end = Fl 101, write_error = None\<rparr>"

definition command_line :: "string list" where
  "command_line = [''computeSales.py'', ''priceCatalogue.json'', ''salesRecord.json'']"

text \<open>A catalogue whose second entry has no price.\<close>

definition faulty_catalogue :: "json list" where
  "faulty_catalogue =
     [JObj [(''title'', JStr ''A''), (''price'', JInt 10)],
      JObj [(''title'', JStr ''B'')]]"

text \<open>A catalogue and a sale that use booleans as numbers.\<close>

definition boolean_catalogue :: "json list" where
  "boolean_catalogue =
     [JObj [(''title'', JStr ''A''), (''price'', JBool True)],
      JObj [(''title'', JStr ''B''), (''price'', JInt 5)]]"

definition boolean_sales :: "json list" where
  "boolean_sales =
     [JObj [(''Product'', JStr ''A''), (''Quantity'', JInt 3)],
      JObj [(''Product'', JStr ''B''), (''Quantity'', JBool True)],
      JObj [(''Product'', JStr ''B''), (''Quantity'', JBool False)]]"

section \<open>Rounding\<close>

lemma round_half_even_int: "round_half_even (of_int m) = m"
  by (simp add: round_half_even_def)

lemma round_half_even_nonneg: "0 \<le> q \<Longrightarrow> 0 \<le> round_half_even q"
  by (auto simp add: round_half_even_def Let_def)

lemma two_powr_nonpos: "j \<le> 0 \<Longrightarrow> (2::real) powr of_int j = 1 / 2 ^ nat (- j)"
  by (cases "j = 0") (simp_all add: powr_real_of_int inverse_eq_divide)

text \<open>An integer below \<open>2 ^ 53\<close> in magnitude is a float: rounding leaves it as it is.\<close>

lemma round_double_int:
  assumes "\<bar>n\<bar> < 2 ^ 53"
  shows "round_double (of_int n) = Fl (of_int n)"
proof (cases "n = 0")
  case True
  then show ?thesis by (simp add: round_double_def)
next
  case False
  let ?x = "real_of_int n"
  let ?e = "\<lfloor>log 2 \<bar>?x\<bar>\<rfloor>"
  have one: "1 \<le> \<bar>?x\<bar>" using False by (simp add: abs_if)
  then have lo: "0 \<le> ?e" by simp
  have small: "\<bar>?x\<bar> < 2 ^ 53" using assms
    by (metis of_int_abs of_int_less_numeral_power_cancel_iff)
  have "log 2 \<bar>?x\<bar> < 53"
    using one small log_less_iff [of 2 "\<bar>?x\<bar>" 53] by simp
  then have hi: "?e \<le> 52" by linarith
  define k where "k = nat (52 - ?e)"
  have ulp: "ulp_exponent ?x = ?e - 52"
    using lo by (simp add: ulp_exponent_def)
  have "?e - 52 \<le> 0" using hi by simp
  from two_powr_nonpos [OF this]
  have u: "(2::real) powr of_int (ulp_exponent ?x) = 1 / 2 ^ k"
    unfolding ulp k_def by simp
  have q: "?x / ((2::real) powr of_int (ulp_exponent ?x)) = of_int (n * 2 ^ k)"
    by (simp add: u)
  have y: "of_int (round_half_even (?x / ((2::real) powr of_int (ulp_exponent ?x)))) *
      (2::real) powr of_int (ulp_exponent ?x) = ?x"
    unfolding q round_half_even_int by (simp add: u)
  have "\<bar>?x\<bar> < 2 ^ 1024"
    using small by (rule less_trans) simp
  then show ?thesis
    using False by (simp add: round_double_def Let_def y del: of_int_abs)
qed

lemma round_double_numeral:
  "numeral k < (2::int) ^ 53 \<Longrightarrow> round_double (numeral k) = Fl (numeral k)"
  "numeral k < (2::int) ^ 53 \<Longrightarrow> round_double (- numeral k) = Fl (- numeral k)"
  "round_double 0 = Fl 0" "round_double 1 = Fl 1"
  using round_double_int [of "numeral k"] round_double_int [of "- numeral k"]
    round_double_int [of 0] round_double_int [of 1]
  by simp_all

text \<open>Rounding keeps the sign: a number that is not negative rounds to one, or to +inf.\<close>

lemma round_double_nonneg: "0 \<le> x \<Longrightarrow> non_negative_float (round_double x)"
proof (cases "x = 0")
  case True
  then show ?thesis by (simp add: round_double_def)
next
  case False
  assume "0 \<le> x"
  let ?u = "(2::real) powr of_int (ulp_exponent x)"
  have "0 \<le> x / ?u" using \<open>0 \<le> x\<close> by simp
  then have "0 \<le> round_half_even (x / ?u)" by (rule round_half_even_nonneg)
  then have "0 \<le> of_int (round_half_even (x / ?u)) * ?u" by simp
  then show ?thesis using False \<open>0 \<le> x\<close> by (auto simp add: round_double_def Let_def)
qed

lemma to_float_numeral:
  "numeral k < (2::int) ^ 53 \<Longrightarrow> to_float (numeral k) = Inr (Fl (numeral k))"
  "numeral k < (2::int) ^ 53 \<Longrightarrow> to_float (- numeral k) = Inr (Fl (- numeral k))"
  "to_float 0 = Inr (Fl 0)" "to_float 1 = Inr (Fl 1)"
  by (simp_all add: to_float_def round_double_numeral)

lemma to_float_nonneg: "0 \<le> i \<Longrightarrow> to_float i = Inr x \<Longrightarrow> non_negative_float x"
  using round_double_nonneg [of "of_int i"]
  by (cases "round_double (of_int i)") (auto simp add: to_float_def)

lemma fadd_nonneg:
  "non_negative_float a \<Longrightarrow> non_negative_float b \<Longrightarrow> non_negative_float (fadd a b)"
  by (cases a; cases b) (simp_all add: round_double_nonneg)

lemma fmul_nonneg: "0 \<le> a \<Longrightarrow> 0 \<le> b \<Longrightarrow> non_negative_float (fmul (Fl a) (Fl b))"
  by (simp add: round_double_nonneg)

lemma to_float_finite: "to_float i = Inr x \<Longrightarrow> \<exists>y. x = Fl y"
  by (cases "round_double (of_int i)") (auto simp add: to_float_def)

text \<open>
  Adding the product of a finite price that is not negative and a finite Quantity that
  is not below zero keeps a total that is neither negative nor NaN.
\<close>

lemma accumulate_nonneg:
  assumes "non_negative_float t"
    and "finite_num (as_num price)" and "\<not> py_lt0 (as_num price)"
    and "finite_num (as_num quantity)" and "\<not> py_lt0 (as_num quantity)"
    and "accumulate t price quantity = Inr t'"
  shows "non_negative_float t'"
proof (cases "as_num price")
  case p: (PInt a)
  with assms(3) have a: "0 \<le> a" by simp
  show ?thesis
  proof (cases "as_num quantity")
    case (PInt b)
    with assms(5) have "0 \<le> b" by simp
    with a have "0 \<le> a * b" by simp
    with assms(6) p PInt to_float_nonneg [of "a * b"] fadd_nonneg [OF assms(1)]
    show ?thesis by (auto simp add: accumulate_def split: sum.splits)
  next
    case (PFloat y)
    with assms(4,5) obtain r where r: "y = Fl r" "0 \<le> r" by (cases y) auto
    from assms(6) p PFloat obtain x where x: "to_float a = Inr x" "t' = fadd t (fmul x y)"
      by (auto simp add: accumulate_def split: sum.splits)
    from to_float_nonneg [OF a x(1)] to_float_finite [OF x(1)]
    obtain s where "x = Fl s" "0 \<le> s" by auto
    with r x(2) fadd_nonneg [OF assms(1) fmul_nonneg, of s r] show ?thesis by simp
  qed
next
  case p: (PFloat x)
  with assms(2,3) obtain s where s: "x = Fl s" "0 \<le> s" by (cases x) auto
  show ?thesis
  proof (cases "as_num quantity")
    case (PInt b)
    with assms(5) have b: "0 \<le> b" by simp
    from assms(6) p PInt obtain y where y: "to_float b = Inr y" "t' = fadd t (fmul x y)"
      by (auto simp add: accumulate_def split: sum.splits)
    from to_float_nonneg [OF b y(1)] to_float_finite [OF y(1)]
    obtain r where "y = Fl r" "0 \<le> r" by auto
    with s y(2) fadd_nonneg [OF assms(1) fmul_nonneg, of s r] show ?thesis by simp
  next
    case (PFloat y)
    with assms(4,5) obtain r where r: "y = Fl r" "0 \<le> r" by (cases y) auto
    from assms(6) p PFloat have "t' = fadd t (fmul x y)"
      by (simp add: accumulate_def)
    with s r fadd_nonneg [OF assms(1) fmul_nonneg, of s r] show ?thesis by simp
  qed
qed

section \<open>The functions in closed form\<close>

lemma py_get_obj: "py_get v k = (if is_obj v then Inr (field v k) else Inl AttributeError)"
  by (cases v) (simp_all add: py_get_def)

lemma py_in_eq:
  "py_in k d = (if hashable k then Inr (is_str k \<and> d (str_val k) \<noteq> None) else Inl TypeError)"
  by (cases k) (simp_all add: py_in_def)

lemma catalogue_step_eq:
  "catalogue_step item (d, out) =
     (if is_obj item
      then Inr (if valid_entry item
                then (d(str_val (field item ''title'') \<mapsto> field item ''price''), out)
                else (d, out @ [InvalidProductEntry item]))
      else Inl AttributeError)"
  by (simp add: catalogue_step_def py_get_obj valid_entry_def)

lemma convert_loop_raises:
  "\<not> list_all is_obj items \<Longrightarrow> convert_loop items s = Inl AttributeError"
proof (induction items arbitrary: s)
  case Nil
  then show ?case by simp
next
  case (Cons item items)
  obtain d out where s: "s = (d, out)" by (cases s)
  show ?case
  proof (cases "is_obj item")
    case True
    with Cons show ?thesis by (simp add: s catalogue_step_eq)
  next
    case False
    then show ?thesis by (simp add: s catalogue_step_eq)
  qed
qed

lemma convert_loop_returns:
  "list_all is_obj items \<Longrightarrow>
     \<exists>d' ws. convert_loop items (d, out) = Inr (d', out @ ws) \<and> filter is_sale_warning ws = []"
proof (induction items arbitrary: d out)
  case Nil
  then show ?case by simp
next
  case (Cons item items)
  then have obj: "is_obj item" and rest: "list_all is_obj items" by simp_all
  show ?case
  proof (cases "valid_entry item")
    case True
    let ?d = "d(str_val (field item ''title'') \<mapsto> field item ''price'')"
    have "\<exists>d' ws. convert_loop items (?d, out) = Inr (d', out @ ws) \<and>
            filter is_sale_warning ws = []"
      by (rule Cons.IH [OF rest])
    moreover have "convert_loop (item # items) (d, out) = convert_loop items (?d, out)"
      using obj True by (simp add: catalogue_step_eq)
    ultimately show ?thesis by simp
  next
    case False
    from Cons.IH [OF rest, of d "out @ [InvalidProductEntry item]"]
    obtain d' ws where
      "convert_loop items (d, out @ [InvalidProductEntry item]) =
         Inr (d', (out @ [InvalidProductEntry item]) @ ws)"
      and "filter is_sale_warning ws = []" by blast
    then have "convert_loop (item # items) (d, out) = Inr (d', out @ (InvalidProductEntry item # ws))
      \<and> filter is_sale_warning (InvalidProductEntry item # ws) = []"
      using obj False by (simp add: catalogue_step_eq)
    then show ?thesis by blast
  qed
qed

lemma convert_printed_no_sale_warning:
  assumes "convert_catalogue_to_dict cat = Inr (idx, printed)"
  shows "filter is_sale_warning printed = []"
proof -
  have "list_all is_obj cat"
    using assms convert_loop_raises [of cat "(Map.empty, [])"]
    by (auto simp add: convert_catalogue_to_dict_def)
  from convert_loop_returns [OF this, of Map.empty "[]"] assms
  show ?thesis by (auto simp add: convert_catalogue_to_dict_def)
qed

lemma convert_returns:
  "list_all is_obj cat \<Longrightarrow> \<exists>idx printed. convert_catalogue_to_dict cat = Inr (idx, printed)"
  using convert_loop_returns [of cat Map.empty "[]"]
  by (auto simp add: convert_catalogue_to_dict_def)

lemma convert_loop_last_wins:
  "convert_loop items (d, out) = Inr (d', out') \<Longrightarrow>
   d' t = (case filter (\<lambda>e. valid_entry e \<and> field e ''title'' = JStr t) items of
             [] \<Rightarrow> d t
           | e # es \<Rightarrow> Some (field (last (e # es)) ''price''))"
proof (induction items arbitrary: d out)
  case Nil
  then show ?case by simp
next
  case (Cons item items)
  let ?same = "\<lambda>e. valid_entry e \<and> field e ''title'' = JStr t"
  from Cons.prems have obj: "is_obj item"
    by (auto simp add: catalogue_step_eq split: if_splits)
  show ?case
  proof (cases "valid_entry item")
    case True
    let ?d = "d(str_val (field item ''title'') \<mapsto> field item ''price'')"
    from Cons.prems obj True have "convert_loop items (?d, out) = Inr (d', out')"
      by (simp add: catalogue_step_eq)
    from Cons.IH [OF this]
    have IH: "d' t = (case filter ?same items of [] \<Rightarrow> ?d t
                        | e # es \<Rightarrow> Some (field (last (e # es)) ''price''))" .
    from True have title: "field item ''title'' = JStr (str_val (field item ''title''))"
      by (cases "field item ''title''") (simp_all add: valid_entry_def)
    show ?thesis
    proof (cases "field item ''title'' = JStr t")
      case same: True
      then have "str_val (field item ''title'') = t" by simp
      then show ?thesis using IH True same by (simp split: list.splits)
    next
      case other: False
      with title have "str_val (field item ''title'') \<noteq> t" by auto
      then show ?thesis using IH other by (simp split: list.splits)
    qed
  next
    case False
    from Cons.prems obj False
    have "convert_loop items (d, out @ [InvalidProductEntry item]) = Inr (d', out')"
      by (simp add: catalogue_step_eq)
    from Cons.IH [OF this] False show ?thesis by simp
  qed
qed

lemma convert_loop_prices:
  "convert_loop items (d, out) = Inr (d', out') \<Longrightarrow> d' p = Some v \<Longrightarrow>
   d p = Some v \<or> (\<exists>e \<in> set items. valid_entry e \<and> field e ''price'' = v)"
proof (induction items arbitrary: d out)
  case Nil
  then show ?case by simp
next
  case (Cons item items)
  from Cons.prems have obj: "is_obj item"
    by (auto simp add: catalogue_step_eq split: if_splits)
  show ?case
  proof (cases "valid_entry item")
    case True
    let ?d = "d(str_val (field item ''title'') \<mapsto> field item ''price'')"
    from Cons.prems obj True have "convert_loop items (?d, out) = Inr (d', out')"
      by (simp add: catalogue_step_eq)
    from Cons.IH [OF this Cons.prems(2)] True show ?thesis
      by (auto split: if_splits)
  next
    case False
    from Cons.prems obj False
    have "convert_loop items (d, out @ [InvalidProductEntry item]) = Inr (d', out')"
      by (simp add: catalogue_step_eq)
    from Cons.IH [OF this Cons.prems(2)] show ?thesis by auto
  qed
qed

lemma add_sale_eq:
  "add_sale d p q (t, out) =
     (if \<not> hashable p then Inl TypeError
      else if \<not> (is_str p \<and> d (str_val p) \<noteq> None) then Inr (t, out @ [NotFoundInCatalogue p])
      else if \<not> is_number q \<or> py_lt0 (as_num q) then Inr (t, out @ [InvalidQuantity p])
      else (case accumulate t (the (d (str_val p))) q of
              Inl e \<Rightarrow> Inl e
            | Inr t' \<Rightarrow> Inr (t', out)))"
  by (auto simp add: add_sale_def py_in_eq split: option.splits sum.splits)

lemma sale_warning_sale: "filter is_sale_warning (sale_warning idx sale) = sale_warning idx sale"
  by (simp add: sale_warning_def)

lemma sale_warning_length: "length (sale_warning idx sale) \<le> 1"
  by (simp add: sale_warning_def)

lemma sale_warning_accepted: "sale_warning idx sale = [] \<longleftrightarrow> accepted idx sale"
  by (auto simp add: sale_warning_def accepted_def)

lemma sale_price_in_index: "in_index idx sale \<Longrightarrow>
    the (idx (str_val (field sale ''Product''))) = sale_price idx sale"
  by (auto simp add: in_index_def sale_price_def)

text \<open>
  One iteration, once the index is known: the two exceptions of a malformed sale, then
  either the accumulation of an accepted sale or the warning of a rejected one.
\<close>

lemma sale_step_once_shape:
  "sale_step_once idx sale (t, out) =
     (if \<not> is_obj sale then Inl AttributeError
      else if \<not> hashable (field sale ''Product'') then Inl TypeError
      else if accepted idx sale
      then (case accumulate t (sale_price idx sale) (field sale ''Quantity'') of
              Inl e \<Rightarrow> Inl e
            | Inr t' \<Rightarrow> Inr (t', out))
      else Inr (t, out @ sale_warning idx sale))"
  using sale_price_in_index [of idx sale]
  by (auto simp add: sale_step_once_def py_get_obj add_sale_eq sale_warning_def accepted_def
      in_index_def)

lemma sale_step_is_once:
  assumes "convert_catalogue_to_dict cat = Inr (idx, printed)"
  shows "sale_step cat sale (t, out) = sale_step_once idx sale (t, out @ printed)"
  using assms by (simp add: sale_step_def sale_step_once_def split: sum.splits)

lemma sale_step_shape:
  assumes "convert_catalogue_to_dict cat = Inr (idx, printed)"
  shows "sale_step cat sale (t, out) =
     (if \<not> is_obj sale then Inl AttributeError
      else if \<not> hashable (field sale ''Product'') then Inl TypeError
      else if accepted idx sale
      then (case accumulate t (sale_price idx sale) (field sale ''Quantity'') of
              Inl e \<Rightarrow> Inl e
            | Inr t' \<Rightarrow> Inr (t', out @ printed))
      else Inr (t, out @ printed @ sale_warning idx sale))"
  by (simp add: sale_step_is_once [OF assms] sale_step_once_shape)

lemma sales_loop_no_index:
  "convert_catalogue_to_dict cat = Inl e \<Longrightarrow> sales_loop cat sales s = Inr s' \<Longrightarrow>
   sales = [] \<and> s' = s"
  by (cases sales) (auto simp add: sale_step_def split: sum.splits)

text \<open>A step that returns, seen from both implementations.\<close>

lemma sale_step_pair:
  assumes "convert_catalogue_to_dict cat = Inr (idx, printed)"
    and "sale_step cat sale (t, out) = Inr (t1, out1)"
  shows "is_obj sale" and "hashable (field sale ''Product'')"
    and "out1 = out @ printed @ sale_warning idx sale"
    and "sale_step_once idx sale (t, out2) = Inr (t1, out2 @ sale_warning idx sale)"
    and "float_sum idx (filter (accepted idx) (sale # sales)) t =
         float_sum idx (filter (accepted idx) sales) t1"
proof -
  from assms(2) show obj: "is_obj sale" and hash: "hashable (field sale ''Product'')"
    by (auto simp add: sale_step_shape [OF assms(1)] split: if_splits)
  have all: "out1 = out @ printed @ sale_warning idx sale \<and>
    sale_step_once idx sale (t, out2) = Inr (t1, out2 @ sale_warning idx sale) \<and>
    float_sum idx (filter (accepted idx) (sale # sales)) t =
      float_sum idx (filter (accepted idx) sales) t1"
  proof (cases "accepted idx sale")
    case True
    then have w: "sale_warning idx sale = []" by (simp add: sale_warning_accepted)
    from assms(2) obj hash True
    have acc: "accumulate t (sale_price idx sale) (field sale ''Quantity'') = Inr t1"
      and o: "out1 = out @ printed"
      by (auto simp add: sale_step_shape [OF assms(1)] split: sum.splits)
    from acc o obj hash True w show ?thesis
      by (simp add: sale_step_once_shape)
  next
    case False
    from assms(2) obj hash False
    have t1: "t1 = t" and o: "out1 = out @ printed @ sale_warning idx sale"
      by (auto simp add: sale_step_shape [OF assms(1)])
    from t1 o obj hash False show ?thesis
      by (simp add: sale_step_once_shape)
  qed
  from all show "out1 = out @ printed @ sale_warning idx sale" by simp
  from all show "sale_step_once idx sale (t, out2) = Inr (t1, out2 @ sale_warning idx sale)"
    by simp
  from all show "float_sum idx (filter (accepted idx) (sale # sales)) t =
         float_sum idx (filter (accepted idx) sales) t1" by simp
qed

lemma sales_loop_sum:
  assumes "convert_catalogue_to_dict cat = Inr (idx, printed)"
  shows "sales_loop cat sales (t, out) = Inr (t', out') \<Longrightarrow>
         float_sum idx (filter (accepted idx) sales) t = Inr t'"
proof (induction sales arbitrary: t out)
  case Nil
  then show ?case by simp
next
  case (Cons sale sales)
  from Cons.prems obtain t1 out1 where
    step: "sale_step cat sale (t, out) = Inr (t1, out1)"
    and rest: "sales_loop cat sales (t1, out1) = Inr (t', out')"
    by (auto split: sum.splits)
  from sale_step_pair(5) [OF assms step] Cons.IH [OF rest]
  show ?case by simp
qed


lemma sales_loop_once_error:
  assumes "convert_catalogue_to_dict cat = Inr (idx, printed)"
  shows "sales_loop_once idx sales (t, out2) = Inl e \<longleftrightarrow> sales_loop cat sales (t, out) = Inl e"
proof (induction sales arbitrary: t out out2)
  case Nil
  show ?case by simp
next
  case (Cons sale sales)
  show ?case
    by (simp add: sale_step_shape [OF assms] sale_step_once_shape Cons.IH split: sum.splits)
qed

lemma sales_loop_once_result:
  assumes "convert_catalogue_to_dict cat = Inr (idx, printed)"
  shows "sales_loop cat sales (t, out) = Inr (t', out') \<Longrightarrow>
     \<exists>ws. out' = out @ ws \<and>
       sales_loop_once idx sales (t, out2) = Inr (t', out2 @ filter is_sale_warning ws) \<and>
       length (filter is_sale_warning ws) \<le> length sales \<and>
       (printed = [] \<longrightarrow> filter is_sale_warning ws = ws)"
proof (induction sales arbitrary: t out out2)
  case Nil
  then show ?case by simp
next
  case (Cons sale sales)
  let ?w = "sale_warning idx sale"
  from Cons.prems obtain t1 out1 where
    step: "sale_step cat sale (t, out) = Inr (t1, out1)"
    and rest: "sales_loop cat sales (t1, out1) = Inr (t', out')"
    by (auto split: sum.splits)
  note pair = sale_step_pair [OF assms step]
  from rest pair(3) have "sales_loop cat sales (t1, out @ printed @ ?w) = Inr (t', out')"
    by simp
  from Cons.IH [OF this, of "out2 @ ?w"] obtain ws where
    ws: "out' = (out @ printed @ ?w) @ ws"
      "sales_loop_once idx sales (t1, out2 @ ?w) = Inr (t', (out2 @ ?w) @ filter is_sale_warning ws)"
      "length (filter is_sale_warning ws) \<le> length sales"
      "printed = [] \<longrightarrow> filter is_sale_warning ws = ws"
    by blast
  have quiet: "filter is_sale_warning printed = []"
    by (rule convert_printed_no_sale_warning [OF assms])
  have "out' = out @ (printed @ ?w @ ws) \<and>
       sales_loop_once idx (sale # sales) (t, out2) =
         Inr (t', out2 @ filter is_sale_warning (printed @ ?w @ ws)) \<and>
       length (filter is_sale_warning (printed @ ?w @ ws)) \<le> length (sale # sales) \<and>
       (printed = [] \<longrightarrow> filter is_sale_warning (printed @ ?w @ ws) = printed @ ?w @ ws)"
    using ws quiet sale_warning_length [of idx sale] pair(4) [of out2]
    by (simp add: sale_warning_sale)
  then show ?case by blast
qed

text \<open>The sum over sales with finite quantities at finite prices that are not negative.\<close>

lemma float_sum_nonneg:
  assumes "\<forall>p v. idx p = Some v \<longrightarrow> finite_num (as_num v) \<and> \<not> py_lt0 (as_num v)"
  shows "list_all (\<lambda>s. accepted idx s \<and> finite_num (as_num (field s ''Quantity''))) sales \<Longrightarrow>
         non_negative_float t \<Longrightarrow> float_sum idx sales t = Inr t' \<Longrightarrow> non_negative_float t'"
proof (induction sales arbitrary: t)
  case Nil
  then show ?case by simp
next
  case (Cons sale sales)
  from Cons.prems(1) have acc: "accepted idx sale"
    and fin: "finite_num (as_num (field sale ''Quantity''))"
    and rest: "list_all (\<lambda>s. accepted idx s \<and> finite_num (as_num (field s ''Quantity''))) sales"
    by simp_all
  from acc obtain v where v: "idx (str_val (field sale ''Product'')) = Some v"
    by (auto simp add: accepted_def in_index_def)
  then have price: "sale_price idx sale = v" by (simp add: sale_price_def)
  from assms v have pv: "finite_num (as_num v)" "\<not> py_lt0 (as_num v)" by auto
  from acc have q: "\<not> py_lt0 (as_num (field sale ''Quantity''))" by (simp add: accepted_def)
  from Cons.prems(3) obtain t1 where
    step: "accumulate t v (field sale ''Quantity'') = Inr t1"
    and sum: "float_sum idx sales t1 = Inr t'"
    by (auto simp add: price split: sum.splits)
  from accumulate_nonneg [OF Cons.prems(2) pv fin q step]
  have "non_negative_float t1" .
  from Cons.IH [OF rest this sum] show ?case .
qed

section \<open>The examples, evaluated\<close>

lemma example_index:
  "convert_catalogue_to_dict example_catalogue = Inr ([''A'' \<mapsto> JInt 10, ''B'' \<mapsto> JInt 5], [])"
  by (simp add: example_catalogue_def convert_catalogue_to_dict_def catalogue_step_def
      py_get_def dict_get_def)

lemma example_run:
  "compute_total_sales example_catalogue example_sales =
     Inr (Fl 20, [NotFoundInCatalogue (JStr ''C''), InvalidQuantity (JStr ''B'')])"
  by (simp add: compute_total_sales_def example_sales_def sale_step_def example_index
      add_sale_def py_get_def py_in_def dict_get_def accumulate_def to_float_numeral
      round_double_numeral)

lemma faulty_index:
  "convert_catalogue_to_dict faulty_catalogue =
     Inr ([''A'' \<mapsto> JInt 10], [InvalidProductEntry (JObj [(''title'', JStr ''B'')])])"
  by (simp add: faulty_catalogue_def convert_catalogue_to_dict_def catalogue_step_def
      py_get_def dict_get_def)

lemma faulty_run:
  "compute_total_sales faulty_catalogue example_sales =
     Inr (Fl 20, [InvalidProductEntry (JObj [(''title'', JStr ''B'')]),
               InvalidProductEntry (JObj [(''title'', JStr ''B'')]),
               NotFoundInCatalogue (JStr ''C''),
               InvalidProductEntry (JObj [(''title'', JStr ''B'')]),
               NotFoundInCatalogue (JStr ''B'')])"
  by (simp add: compute_total_sales_def example_sales_def sale_step_def faulty_index
      add_sale_def py_get_def py_in_def dict_get_def accumulate_def to_float_numeral
      round_double_numeral)

lemma faulty_run_once:
  "compute_total_sales_once faulty_catalogue example_sales =
     Inr (Fl 20, [InvalidProductEntry (JObj [(''title'', JStr ''B'')]),
               NotFoundInCatalogue (JStr ''C''),
               NotFoundInCatalogue (JStr ''B'')])"
  by (simp add: compute_total_sales_once_def example_sales_def sale_step_once_def faulty_index
      add_sale_def py_get_def py_in_def dict_get_def accumulate_def to_float_numeral
      round_double_numeral)

lemma boolean_index:
  "convert_catalogue_to_dict boolean_catalogue =
     Inr ([''A'' \<mapsto> JBool True, ''B'' \<mapsto> JInt 5], [])"
  by (simp add: boolean_catalogue_def convert_catalogue_to_dict_def catalogue_step_def
      py_get_def dict_get_def)


section \<open>The claims\<close>




text \<open>
  C2 (the code raises). A sale that is not a record has no \<^verbatim>\<open>get\<close> method, so
  \<^verbatim>\<open>sale.get("Product")\<close> raises AttributeError before any check; the same happens
  for a catalogue entry that is not a record as soon as there is one sale; and a sale
  whose Product is a list cannot be hashed, so the membership test raises TypeError. In
  none of these runs is the record skipped or the total reached.
\<close>

theorem compute_total_sales_raises_on_non_record:
  "compute_total_sales example_catalogue [JStr ''abc''] = Inl AttributeError \<and>
   compute_total_sales example_catalogue [JInt 5] = Inl AttributeError \<and>
   compute_total_sales [JStr ''abc''] example_sales = Inl AttributeError \<and>
   compute_total_sales example_catalogue
     [JObj [(''Product'', JList [JStr ''A'']), (''Quantity'', JInt 1)]] = Inl TypeError"
proof (intro conjI)
  show "compute_total_sales example_catalogue [JStr ''abc''] = Inl AttributeError"
    by (simp add: compute_total_sales_def sale_step_def py_get_def)
  show "compute_total_sales example_catalogue [JInt 5] = Inl AttributeError"
    by (simp add: compute_total_sales_def sale_step_def py_get_def)
  show "compute_total_sales [JStr ''abc''] example_sales = Inl AttributeError"
    by (simp add: compute_total_sales_def example_sales_def sale_step_def py_get_def
        convert_catalogue_to_dict_def catalogue_step_def)
  show "compute_total_sales example_catalogue
     [JObj [(''Product'', JList [JStr ''A'']), (''Quantity'', JInt 1)]] = Inl TypeError"
    by (simp add: compute_total_sales_def sale_step_def example_index add_sale_def py_get_def
        py_in_def dict_get_def)
qed

text \<open>
  C3, as stated, fails: the price of a catalogue entry is only tested for being a number,
  so a negative price is indexed and the total of 2 units at -10 is -20.0.
\<close>

theorem compute_total_sales_negative_counterexample:
  "compute_total_sales [JObj [(''title'', JStr ''A''), (''price'', JInt (- 10))]]
     [JObj [(''Product'', JStr ''A''), (''Quantity'', JInt 2)]] = Inr (Fl (- 20), []) \<and>
   \<not> (0::real) \<le> - 20"
  by (simp add: compute_total_sales_def sale_step_def add_sale_def py_get_def
      py_in_def dict_get_def convert_catalogue_to_dict_def catalogue_step_def
      accumulate_def to_float_numeral round_double_numeral)

text \<open>
  C3, amended. When every valid catalogue entry (string title, numeric price) has a
  finite price that is not negative, and every numeric Quantity in the sales is finite
  (neither NaN nor an infinity), the total that compute\_total\_sales returns is neither
  negative nor NaN: it is a non-negative real number, or +inf when the floating-point
  products or their sum overflow.
\<close>

theorem compute_total_sales_nonneg:
  "(\<forall>e \<in> set cat. valid_entry e \<longrightarrow>
      finite_num (as_num (field e ''price'')) \<and> \<not> py_lt0 (as_num (field e ''price''))) \<and>
   (\<forall>s \<in> set sales. is_number (field s ''Quantity'') \<longrightarrow>
      finite_num (as_num (field s ''Quantity''))) \<and>
   compute_total_sales cat sales = Inr (cost, out) \<longrightarrow>
     cost = PInf \<or> (\<exists>r. 0 \<le> r \<and> cost = Fl r)"
proof
  assume a: "(\<forall>e \<in> set cat. valid_entry e \<longrightarrow>
      finite_num (as_num (field e ''price'')) \<and> \<not> py_lt0 (as_num (field e ''price''))) \<and>
   (\<forall>s \<in> set sales. is_number (field s ''Quantity'') \<longrightarrow>
      finite_num (as_num (field s ''Quantity''))) \<and>
   compute_total_sales cat sales = Inr (cost, out)"
  then have run: "sales_loop cat sales (Fl 0, []) = Inr (cost, out)"
    by (simp add: compute_total_sales_def)
  have "non_negative_float cost"
  proof (cases "convert_catalogue_to_dict cat")
    case (Inl e)
    from sales_loop_no_index [OF Inl run] show ?thesis by auto
  next
    case (Inr r)
    obtain idx printed where r: "r = (idx, printed)" by (cases r)
    with Inr have conv: "convert_catalogue_to_dict cat = Inr (idx, printed)" by simp
    have prices: "\<forall>p v. idx p = Some v \<longrightarrow> finite_num (as_num v) \<and> \<not> py_lt0 (as_num v)"
    proof (intro allI impI)
      fix p v assume "idx p = Some v"
      with convert_loop_prices [of cat Map.empty "[]" idx printed p v] conv
      have "\<exists>e \<in> set cat. valid_entry e \<and> field e ''price'' = v"
        by (simp add: convert_catalogue_to_dict_def)
      with a show "finite_num (as_num v) \<and> \<not> py_lt0 (as_num v)" by auto
    qed
    have fin: "list_all (\<lambda>s. accepted idx s \<and> finite_num (as_num (field s ''Quantity'')))
        (filter (accepted idx) sales)"
      using a by (auto simp add: list_all_iff accepted_def)
    from float_sum_nonneg [OF prices fin _ sales_loop_sum [OF conv run]]
    show ?thesis by simp
  qed
  then show "cost = PInf \<or> (\<exists>r. 0 \<le> r \<and> cost = Fl r)"
    by (cases cost) simp_all
qed

theorem compute_total_sales_nonneg_witness:
  "list_all (\<lambda>e. valid_entry e \<and> finite_num (as_num (field e ''price'')) \<and>
      \<not> py_lt0 (as_num (field e ''price''))) example_catalogue \<and>
   list_all (\<lambda>s. is_number (field s ''Quantity'') \<and> finite_num (as_num (field s ''Quantity'')))
      example_sales \<and>
   compute_total_sales example_catalogue example_sales =
     Inr (Fl 20, [NotFoundInCatalogue (JStr ''C''), InvalidQuantity (JStr ''B'')]) \<and>
   (0::real) \<le> 20"
proof -
  have h: "\<forall>e \<in> set example_catalogue. valid_entry e \<longrightarrow>
      finite_num (as_num (field e ''price'')) \<and> \<not> py_lt0 (as_num (field e ''price''))"
    by (simp add: example_catalogue_def valid_entry_def dict_get_def)
  have v: "list_all (\<lambda>e. valid_entry e \<and> finite_num (as_num (field e ''price'')) \<and>
      \<not> py_lt0 (as_num (field e ''price''))) example_catalogue"
    by (simp add: example_catalogue_def valid_entry_def dict_get_def)
  have q: "\<forall>s \<in> set example_sales. is_number (field s ''Quantity'') \<longrightarrow>
      finite_num (as_num (field s ''Quantity''))"
    by (simp add: example_sales_def dict_get_def)
  have w: "list_all (\<lambda>s. is_number (field s ''Quantity'') \<and>
      finite_num (as_num (field s ''Quantity''))) example_sales"
    by (simp add: example_sales_def dict_get_def)
  from compute_total_sales_nonneg [of example_catalogue example_sales "Fl 20"
      "[NotFoundInCatalogue (JStr ''C''), InvalidQuantity (JStr ''B'')]"] h q example_run
  have "(0::real) \<le> 20" by simp
  with v w example_run show ?thesis by simp
qed

text \<open>
  C4. When the catalogue has one or more valid entries with the title t (in particular
  two or more), the index that convert\_catalogue\_to\_dict returns maps t to the price of
  the last of them in input order. The function returns on every list of records.
\<close>

theorem convert_catalogue_to_dict_last_wins:
  "(convert_catalogue_to_dict cat = Inr (idx, printed) \<and>
    same = filter (\<lambda>e. valid_entry e \<and> field e ''title'' = JStr t) cat \<and> same \<noteq> [] \<longrightarrow>
      idx t = Some (field (last same) ''price'')) \<and>
   (list_all is_obj cat \<longrightarrow> (\<exists>idx printed. convert_catalogue_to_dict cat = Inr (idx, printed)))"
proof (intro conjI impI)
  assume a: "convert_catalogue_to_dict cat = Inr (idx, printed) \<and>
    same = filter (\<lambda>e. valid_entry e \<and> field e ''title'' = JStr t) cat \<and> same \<noteq> []"
  then have "convert_loop cat (Map.empty, []) = Inr (idx, printed)"
    by (simp add: convert_catalogue_to_dict_def)
  from convert_loop_last_wins [OF this, of t] a
  show "idx t = Some (field (last same) ''price'')"
    by (auto split: list.splits)
next
  assume "list_all is_obj cat"
  then show "\<exists>idx printed. convert_catalogue_to_dict cat = Inr (idx, printed)"
    by (rule convert_returns)
qed

theorem convert_catalogue_to_dict_last_wins_witness:
  "convert_catalogue_to_dict duplicate_catalogue =
     Inr ([''A'' \<mapsto> JInt 7, ''B'' \<mapsto> JInt 5], []) \<and>
   filter (\<lambda>e. valid_entry e \<and> field e ''title'' = JStr ''A'') duplicate_catalogue =
     [JObj [(''title'', JStr ''A''), (''price'', JInt 10)],
      JObj [(''title'', JStr ''A''), (''price'', JInt 7)]] \<and>
   [''A'' \<mapsto> JInt 7, ''B'' \<mapsto> JInt 5] ''A'' = Some (JInt 7) \<and>
   list_all is_obj duplicate_catalogue"
proof -
  have c: "convert_catalogue_to_dict duplicate_catalogue =
     Inr ([''A'' \<mapsto> JInt 7, ''B'' \<mapsto> JInt 5], [])"
    by (auto simp add: duplicate_catalogue_def convert_catalogue_to_dict_def catalogue_step_def
        py_get_def dict_get_def)
  have f: "filter (\<lambda>e. valid_entry e \<and> field e ''title'' = JStr ''A'') duplicate_catalogue =
     [JObj [(''title'', JStr ''A''), (''price'', JInt 10)],
      JObj [(''title'', JStr ''A''), (''price'', JInt 7)]]"
    by (simp add: duplicate_catalogue_def valid_entry_def dict_get_def)
  have o: "list_all is_obj duplicate_catalogue"
    by (simp add: duplicate_catalogue_def)
  from convert_catalogue_to_dict_last_wins
    [of duplicate_catalogue "[''A'' \<mapsto> JInt 7, ''B'' \<mapsto> JInt 5]" "[]"
      "[JObj [(''title'', JStr ''A''), (''price'', JInt 10)],
        JObj [(''title'', JStr ''A''), (''price'', JInt 7)]]" "''A''"]
  show ?thesis using c f o by (simp add: dict_get_def)
qed




text \<open>
  C6. With two file arguments, when both loads return (a parsed value or the empty
  mapping of a caught failure) and either value is not a list, main prints the format
  error after the loader's lines, exits with status 1 and writes no file.
\<close>

theorem main_rejects_non_list:
  "length argv = 3 \<and>
   load_json_file (argv ! 1) (files w (argv ! 1)) = Inr (price_catalogue, out1) \<and>
   load_json_file (argv ! 2) (files w (argv ! 2)) = Inr (sales_record, out2) \<and>
   (\<not> is_list price_catalogue \<or> \<not> is_list sales_record) \<longrightarrow>
     main argv w = Finished 1 (out1 @ out2 @ [InvalidFileFormat]) None"
  by (auto simp add: main_def)

theorem main_rejects_non_list_witness:
  "length command_line = 3 \<and>
   load_json_file (command_line ! 1) (files missing_catalogue_world (command_line ! 1)) =
     Inr (JObj [], [ErrorLoading ''priceCatalogue.json'' ''No such file or directory'']) \<and>
   load_json_file (command_line ! 2) (files missing_catalogue_world (command_line ! 2)) =
     Inr (JList example_sales, []) \<and>
   is_list (JObj []) = False \<and>
   main command_line missing_catalogue_world =
     Finished 1 [ErrorLoading ''priceCatalogue.json'' ''No such file or directory'',
                 InvalidFileFormat] None"
proof -
  have n: "length command_line = 3" by (simp add: command_line_def)
  have l1: "load_json_file (command_line ! 1) (files missing_catalogue_world (command_line ! 1)) =
     Inr (JObj [], [ErrorLoading ''priceCatalogue.json'' ''No such file or directory''])"
    by (simp add: command_line_def missing_catalogue_world_def load_json_file_def)
  have l2: "load_json_file (command_line ! 2) (files missing_catalogue_world (command_line ! 2)) =
     Inr (JList example_sales, [])"
    by (simp add: command_line_def missing_catalogue_world_def load_json_file_def)
  from main_rejects_non_list [of command_line missing_catalogue_world "JObj []"
      "[ErrorLoading ''priceCatalogue.json'' ''No such file or directory'']"
      "JList example_sales" "[]"] n l1 l2
  show ?thesis by simp
qed

text \<open>
  C7. With two file arguments, a catalogue file that holds a list and a sales file that
  holds the empty list, and a report file that can be written, the total is 0.0, main
  exits with status 0, prints the two report lines and writes them to SalesResults.txt.
\<close>

theorem main_empty_sales:
  "length argv = 3 \<and>
   files w (argv ! 1) = Parsed (JList price_catalogue) \<and>
   files w (argv ! 2) = Parsed (JList []) \<and>
   write_error w = None \<longrightarrow>
     compute_total_sales price_catalogue [] = Inr (Fl 0, []) \<and>
     main argv w =
       Finished 0 [TotalSalesCost (Fl 0), ExecutionTime (fsub (time_end w) (time_start w))]
         (Some (''SalesResults.txt'',
                [TotalSalesCost (Fl 0), ExecutionTime (fsub (time_end w) (time_start w))]))"
  by (simp add: main_def load_json_file_def compute_total_sales_def save_results_def Let_def)

theorem main_empty_sales_witness:
  "length command_line = 3 \<and>
   files empty_sales_world (command_line ! 1) = Parsed (JList example_catalogue) \<and>
   files empty_sales_world (command_line ! 2) = Parsed (JList []) \<and>
   write_error empty_sales_world = None \<and>
   main command_line empty_sales_world =
     Finished 0 [TotalSalesCost (Fl 0), ExecutionTime (Fl 1)]
       (Some (''SalesResults.txt'', [TotalSalesCost (Fl 0), ExecutionTime (Fl 1)]))"
proof -
  have h: "length command_line = 3 \<and>
   files empty_sales_world (command_line ! 1) = Parsed (JList example_catalogue) \<and>
   files empty_sales_world (command_line ! 2) = Parsed (JList []) \<and>
   write_error empty_sales_world = None"
    by (simp add: command_line_def empty_sales_world_def)
  have t: "fsub (time_end empty_sales_world) (time_start empty_sales_world) = Fl 1"
    by (simp add: empty_sales_world_def fsub_def round_double_numeral)
  from main_empty_sales [of command_line empty_sales_world example_catalogue] h t
  show ?thesis by simp
qed

text \<open>
  C8, as stated, fails: the existing loop rebuilds the index for every sale, so the
  warning about an invalid catalogue entry is printed once per sale record (three times
  here, between the warnings about the sales), while the variant prints it once, before
  the loop. With an empty sales list the existing code prints nothing and the variant
  prints the catalogue warning.
\<close>

theorem compute_total_sales_once_counterexample:
  "compute_total_sales faulty_catalogue example_sales =
     Inr (Fl 20, [InvalidProductEntry (JObj [(''title'', JStr ''B'')]),
               InvalidProductEntry (JObj [(''title'', JStr ''B'')]),
               NotFoundInCatalogue (JStr ''C''),
               InvalidProductEntry (JObj [(''title'', JStr ''B'')]),
               NotFoundInCatalogue (JStr ''B'')]) \<and>
   compute_total_sales_once faulty_catalogue example_sales =
     Inr (Fl 20, [InvalidProductEntry (JObj [(''title'', JStr ''B'')]),
               NotFoundInCatalogue (JStr ''C''),
               NotFoundInCatalogue (JStr ''B'')]) \<and>
   compute_total_sales faulty_catalogue [] = Inr (Fl 0, []) \<and>
   compute_total_sales_once faulty_catalogue [] =
     Inr (Fl 0, [InvalidProductEntry (JObj [(''title'', JStr ''B'')])]) \<and>
   compute_total_sales_once faulty_catalogue example_sales \<noteq>
     compute_total_sales faulty_catalogue example_sales"
proof -
  have "compute_total_sales faulty_catalogue [] = Inr (Fl 0, [])"
    by (simp add: compute_total_sales_def)
  moreover have "compute_total_sales_once faulty_catalogue [] =
     Inr (Fl 0, [InvalidProductEntry (JObj [(''title'', JStr ''B'')])])"
    by (simp add: compute_total_sales_once_def faulty_index)
  ultimately show ?thesis
    by (simp add: faulty_run faulty_run_once)
qed

text \<open>
  C8, amended. On every catalogue for which building the index returns, and every sales
  list: the variant raises exactly when the existing implementation raises, with the same
  exception; when the existing implementation returns, the variant returns the identical
  total, and its console output is the warnings of the index construction once, followed
  by the warnings about the sales that the existing implementation printed, in the same
  order; the two console outputs are identical when the index construction prints no
  warning (every catalogue entry is valid).
\<close>

theorem compute_total_sales_once_refines:
  "convert_catalogue_to_dict cat = Inr (idx, printed) \<longrightarrow>
     (\<forall>e. compute_total_sales_once cat sales = Inl e \<longleftrightarrow> compute_total_sales cat sales = Inl e) \<and>
     (\<forall>cost out. compute_total_sales cat sales = Inr (cost, out) \<longrightarrow>
        compute_total_sales_once cat sales = Inr (cost, printed @ filter is_sale_warning out) \<and>
        (printed = [] \<longrightarrow> compute_total_sales_once cat sales = Inr (cost, out)))"
proof (intro impI conjI allI)
  fix e
  assume conv: "convert_catalogue_to_dict cat = Inr (idx, printed)"
  show "compute_total_sales_once cat sales = Inl e \<longleftrightarrow> compute_total_sales cat sales = Inl e"
    using sales_loop_once_error [OF conv, of sales "Fl 0" printed e "[]"]
    by (simp add: compute_total_sales_once_def compute_total_sales_def conv)
next
  fix cost out
  assume conv: "convert_catalogue_to_dict cat = Inr (idx, printed)"
    and run: "compute_total_sales cat sales = Inr (cost, out)"
  from run have "sales_loop cat sales (Fl 0, []) = Inr (cost, out)"
    by (simp add: compute_total_sales_def)
  from sales_loop_once_result [OF conv this, of printed]
  have once: "sales_loop_once idx sales (Fl 0, printed) =
      Inr (cost, printed @ filter is_sale_warning out)"
    and same: "printed = [] \<longrightarrow> filter is_sale_warning out = out"
    by auto
  from once show "compute_total_sales_once cat sales = Inr (cost, printed @ filter is_sale_warning out)"
    by (simp add: compute_total_sales_once_def conv)
  assume "printed = []"
  with once same show "compute_total_sales_once cat sales = Inr (cost, out)"
    by (simp add: compute_total_sales_once_def conv)
qed

theorem compute_total_sales_once_refines_witness:
  "convert_catalogue_to_dict faulty_catalogue =
     Inr ([''A'' \<mapsto> JInt 10], [InvalidProductEntry (JObj [(''title'', JStr ''B'')])]) \<and>
   compute_total_sales faulty_catalogue example_sales =
     Inr (Fl 20, [InvalidProductEntry (JObj [(''title'', JStr ''B'')]),
               InvalidProductEntry (JObj [(''title'', JStr ''B'')]),
               NotFoundInCatalogue (JStr ''C''),
               InvalidProductEntry (JObj [(''title'', JStr ''B'')]),
               NotFoundInCatalogue (JStr ''B'')]) \<and>
   compute_total_sales_once faulty_catalogue example_sales =
     Inr (Fl 20, [InvalidProductEntry (JObj [(''title'', JStr ''B'')]),
               NotFoundInCatalogue (JStr ''C''),
               NotFoundInCatalogue (JStr ''B'')]) \<and>
   convert_catalogue_to_dict example_catalogue = Inr ([''A'' \<mapsto> JInt 10, ''B'' \<mapsto> JInt 5], []) \<and>
   compute_total_sales_once example_catalogue example_sales =
     Inr (Fl 20, [NotFoundInCatalogue (JStr ''C''), InvalidQuantity (JStr ''B'')])"
proof -
  from compute_total_sales_once_refines [of faulty_catalogue "[''A'' \<mapsto> JInt 10]"
      "[InvalidProductEntry (JObj [(''title'', JStr ''B'')])]" example_sales]
    faulty_index faulty_run
  have a: "compute_total_sales_once faulty_catalogue example_sales =
     Inr (Fl 20, [InvalidProductEntry (JObj [(''title'', JStr ''B'')]),
               NotFoundInCatalogue (JStr ''C''),
               NotFoundInCatalogue (JStr ''B'')])"
    by simp
  from compute_total_sales_once_refines [of example_catalogue
      "[''A'' \<mapsto> JInt 10, ''B'' \<mapsto> JInt 5]" "[]" example_sales]
    example_index example_run
  have b: "compute_total_sales_once example_catalogue example_sales =
     Inr (Fl 20, [NotFoundInCatalogue (JStr ''C''), InvalidQuantity (JStr ''B'')])"
    by simp
  from a b faulty_index faulty_run example_index show ?thesis by simp
qed

text \<open>
  C9. A catalogue entry with a string title and a boolean price passes the numeric test:
  it is stored in the index, without a warning, and counts as the int 1 or 0 in
  arithmetic. A sale whose Product is in the index and whose Quantity is a boolean passes
  both checks: it gets no warning, and what it adds to the total is what the Quantity 1
  or 0 adds, the price times 1 or 0 in Python's arithmetic (for an int price n below
  \<open>2 ^ 53\<close> in magnitude and a finite total c, the new total is c + n or c + 0, rounded).
\<close>

theorem booleans_accepted_as_numbers:
  "(dict_get item ''title'' = JStr t \<and> dict_get item ''price'' = JBool b \<longrightarrow>
      catalogue_step (JObj item) (d, out) = Inr (d(t \<mapsto> JBool b), out) \<and>
      as_num (JBool b) = PInt (if b then 1 else 0)) \<and>
   (convert_catalogue_to_dict cat = Inr (idx, printed) \<and>
    dict_get sale ''Product'' = JStr p \<and> idx p = Some price \<and>
    dict_get sale ''Quantity'' = JBool b \<longrightarrow>
      sale_step cat (JObj sale) (cost, out) =
        (case accumulate cost price (JInt (if b then 1 else 0)) of
           Inl e \<Rightarrow> Inl e
         | Inr cost' \<Rightarrow> Inr (cost', out @ printed))) \<and>
   (\<bar>n\<bar> < 2 ^ 53 \<longrightarrow>
      accumulate (Fl c) (JInt n) (JBool b) =
        Inr (round_double (c + (if b then of_int n else 0))))"
proof (intro conjI impI)
  assume "dict_get item ''title'' = JStr t \<and> dict_get item ''price'' = JBool b"
  then show "catalogue_step (JObj item) (d, out) = Inr (d(t \<mapsto> JBool b), out)"
    by (simp add: catalogue_step_def py_get_def)
next
  show "as_num (JBool b) = PInt (if b then 1 else 0)" by simp
next
  assume "convert_catalogue_to_dict cat = Inr (idx, printed) \<and>
    dict_get sale ''Product'' = JStr p \<and> idx p = Some price \<and>
    dict_get sale ''Quantity'' = JBool b"
  then show "sale_step cat (JObj sale) (cost, out) =
        (case accumulate cost price (JInt (if b then 1 else 0)) of
           Inl e \<Rightarrow> Inl e
         | Inr cost' \<Rightarrow> Inr (cost', out @ printed))"
    by (simp add: sale_step_def add_sale_def py_get_def py_in_def accumulate_def
        split: sum.splits)
next
  assume n: "\<bar>n\<bar> < 2 ^ 53"
  then have "to_float n = Inr (Fl (of_int n))"
    by (simp add: to_float_def round_double_int)
  then show "accumulate (Fl c) (JInt n) (JBool b) =
        Inr (round_double (c + (if b then of_int n else 0)))"
    by (simp add: accumulate_def to_float_numeral)
qed

theorem booleans_accepted_as_numbers_witness:
  "catalogue_step (JObj [(''title'', JStr ''A''), (''price'', JBool True)]) (Map.empty, []) =
     Inr ([''A'' \<mapsto> JBool True], []) \<and>
   convert_catalogue_to_dict boolean_catalogue =
     Inr ([''A'' \<mapsto> JBool True, ''B'' \<mapsto> JInt 5], []) \<and>
   sale_step boolean_catalogue (JObj [(''Product'', JStr ''B''), (''Quantity'', JBool True)])
     (Fl 3, []) = Inr (Fl 8, []) \<and>
   accumulate (Fl 3) (JInt 5) (JBool True) = Inr (Fl 8) \<and>
   compute_total_sales boolean_catalogue boolean_sales = Inr (Fl 8, [])"
proof -
  have five: "accumulate (Fl 3) (JInt 5) (JInt 1) = Inr (Fl 8)"
    by (simp add: accumulate_def to_float_numeral round_double_numeral)
  from booleans_accepted_as_numbers
    [of "[(''title'', JStr ''A''), (''price'', JBool True)]" "''A''" True Map.empty "[]"
      boolean_catalogue "[''A'' \<mapsto> JBool True, ''B'' \<mapsto> JInt 5]" "[]"
      "[(''Product'', JStr ''B''), (''Quantity'', JBool True)]" "''B''" "JInt 5" "Fl 3" 5 3]
    boolean_index five
  have "catalogue_step (JObj [(''title'', JStr ''A''), (''price'', JBool True)]) (Map.empty, []) =
     Inr ([''A'' \<mapsto> JBool True], []) \<and>
   sale_step boolean_catalogue (JObj [(''Product'', JStr ''B''), (''Quantity'', JBool True)])
     (Fl 3, []) = Inr (Fl 8, []) \<and>
   accumulate (Fl 3) (JInt 5) (JBool True) = Inr (Fl 8)"
    by (simp add: dict_get_def round_double_numeral)
  moreover have "compute_total_sales boolean_catalogue boolean_sales = Inr (Fl 8, [])"
    by (simp add: compute_total_sales_def boolean_sales_def sale_step_def boolean_index
        add_sale_def py_get_def py_in_def dict_get_def accumulate_def to_float_numeral
        round_double_numeral)
  ultimately show ?thesis using boolean_index by simp
qed

text \<open>
  C10. An iteration of the sales loop that returns prints, after the warnings of the
  index construction, at most one warning about the sale: when the Product is not in the
  index it is the not-found warning and nothing else, whatever the Quantity is; when the
  Product is in the index it is the invalid-quantity warning if the Quantity is not a
  number or is negative, and nothing otherwise. Over a whole run, the warnings about
  sales are no more than the sale records.
\<close>

theorem sale_gets_at_most_one_warning:
  "(convert_catalogue_to_dict cat = Inr (idx, printed) \<and>
    sale_step cat sale (cost, out) = Inr (cost', out') \<longrightarrow>
      (\<exists>ws. out' = out @ printed @ ws \<and> length ws \<le> 1 \<and>
         (py_in (field sale ''Product'') idx = Inr False \<longrightarrow>
            ws = [NotFoundInCatalogue (field sale ''Product'')]) \<and>
         (py_in (field sale ''Product'') idx = Inr True \<longrightarrow>
            ws = (if \<not> is_number (field sale ''Quantity'') \<or>
                     py_lt0 (as_num (field sale ''Quantity''))
                  then [InvalidQuantity (field sale ''Product'')] else [])) \<and>
         (py_in (field sale ''Product'') idx = Inr False \<or>
          py_in (field sale ''Product'') idx = Inr True))) \<and>
   (compute_total_sales cat sales = Inr (final_cost, console) \<longrightarrow>
      length (filter is_sale_warning console) \<le> length sales)"
proof (intro conjI impI)
  assume a: "convert_catalogue_to_dict cat = Inr (idx, printed) \<and>
    sale_step cat sale (cost, out) = Inr (cost', out')"
  then have conv: "convert_catalogue_to_dict cat = Inr (idx, printed)"
    and step: "sale_step cat sale (cost, out) = Inr (cost', out')" by simp_all
  note pair = sale_step_pair [OF conv step]
  let ?ws = "sale_warning idx sale"
  have "out' = out @ printed @ ?ws \<and> length ?ws \<le> 1 \<and>
         (py_in (field sale ''Product'') idx = Inr False \<longrightarrow>
            ?ws = [NotFoundInCatalogue (field sale ''Product'')]) \<and>
         (py_in (field sale ''Product'') idx = Inr True \<longrightarrow>
            ?ws = (if \<not> is_number (field sale ''Quantity'') \<or>
                     py_lt0 (as_num (field sale ''Quantity''))
                  then [InvalidQuantity (field sale ''Product'')] else [])) \<and>
         (py_in (field sale ''Product'') idx = Inr False \<or>
          py_in (field sale ''Product'') idx = Inr True)"
    using pair(2,3) by (auto simp add: py_in_eq sale_warning_def in_index_def)
  then show "\<exists>ws. out' = out @ printed @ ws \<and> length ws \<le> 1 \<and>
         (py_in (field sale ''Product'') idx = Inr False \<longrightarrow>
            ws = [NotFoundInCatalogue (field sale ''Product'')]) \<and>
         (py_in (field sale ''Product'') idx = Inr True \<longrightarrow>
            ws = (if \<not> is_number (field sale ''Quantity'') \<or>
                     py_lt0 (as_num (field sale ''Quantity''))
                  then [InvalidQuantity (field sale ''Product'')] else [])) \<and>
         (py_in (field sale ''Product'') idx = Inr False \<or>
          py_in (field sale ''Product'') idx = Inr True)"
    by blast
next
  assume "compute_total_sales cat sales = Inr (final_cost, console)"
  then have run: "sales_loop cat sales (Fl 0, []) = Inr (final_cost, console)"
    by (simp add: compute_total_sales_def)
  show "length (filter is_sale_warning console) \<le> length sales"
  proof (cases "convert_catalogue_to_dict cat")
    case (Inl e)
    from sales_loop_no_index [OF Inl run] show ?thesis by simp
  next
    case (Inr r)
    obtain idx printed where "r = (idx, printed)" by (cases r)
    with Inr have conv: "convert_catalogue_to_dict cat = Inr (idx, printed)" by simp
    from sales_loop_once_result [OF conv run, of "[]"] show ?thesis by auto
  qed
qed

theorem sale_gets_at_most_one_warning_witness:
  "convert_catalogue_to_dict example_catalogue = Inr ([''A'' \<mapsto> JInt 10, ''B'' \<mapsto> JInt 5], []) \<and>
   sale_step example_catalogue (JObj [(''Product'', JStr ''C''), (''Quantity'', JInt (- 1))])
     (Fl 0, []) = Inr (Fl 0, [NotFoundInCatalogue (JStr ''C'')]) \<and>
   py_in (JStr ''C'') [''A'' \<mapsto> JInt 10, ''B'' \<mapsto> JInt 5] = Inr False \<and>
   compute_total_sales example_catalogue example_sales =
     Inr (Fl 20, [NotFoundInCatalogue (JStr ''C''), InvalidQuantity (JStr ''B'')]) \<and>
   length (filter is_sale_warning [NotFoundInCatalogue (JStr ''C''), InvalidQuantity (JStr ''B'')])
     \<le> length example_sales"
proof -
  have s: "sale_step example_catalogue
      (JObj [(''Product'', JStr ''C''), (''Quantity'', JInt (- 1))]) (Fl 0, []) =
     Inr (Fl 0, [NotFoundInCatalogue (JStr ''C'')])"
    by (simp add: sale_step_def example_index add_sale_def py_get_def py_in_def dict_get_def)
  have p: "py_in (JStr ''C'') [''A'' \<mapsto> JInt 10, ''B'' \<mapsto> JInt 5] = Inr False"
    by (simp add: py_in_def)
  from sale_gets_at_most_one_warning
    [of example_catalogue "[''A'' \<mapsto> JInt 10, ''B'' \<mapsto> JInt 5]" "[]"
      "JObj [(''Product'', JStr ''C''), (''Quantity'', JInt (- 1))]" "Fl 0" "[]" "Fl 0"
      "[NotFoundInCatalogue (JStr ''C'')]" example_sales "Fl 20"
      "[NotFoundInCatalogue (JStr ''C''), InvalidQuantity (JStr ''B'')]"]
    example_index example_run s
  have "length (filter is_sale_warning
      [NotFoundInCatalogue (JStr ''C''), InvalidQuantity (JStr ''B'')]) \<le> length example_sales"
    by simp
  with s p example_index example_run show ?thesis by simp
qed

end
